theory Spec2Isabelle
  imports Main "HOL-Library.AList"
begin

section \<open>Configuration trees\<close>

text \<open>
  A Helm value is what sits in a \<^verbatim>\<open>map[string]interface{}\<close>: the untyped nil, a
  boolean, a number, a string, a sequence or a nested map. A nested map has one of two
  Go types, and the library's merge tells them apart: it treats a value as a table only
  when its type is \<^verbatim>\<open>map[string]interface{}\<close> (\<open>VTable\<close>). That is the type of the
  nested maps of the chart defaults, which the chart loader builds, and of the map
  literals of the values generators. The YAML decoder that \<open>extractRHOAIValues\<close> runs
  on a \<^verbatim>\<open>chartutil.Values\<close> builds every nested mapping with that named type
  (\<open>VValues\<close>), which the merge does not take for a table.

  A Go map has one entry per key and no order; it is modelled as an association list that
  is read with \<^const>\<open>map_of\<close> and written with \<^const>\<open>AList.update\<close> and
  \<^const>\<open>AList.delete\<close>. A well-formed table has distinct keys. The merge never looks
  inside a scalar, so one constructor stands for all numbers.
\<close>

datatype val =
    VNull
  | VBool bool
  | VInt int
  | VStr string
  | VList "val list"
  | VTable "(string \<times> val) list"
  | VValues "(string \<times> val) list"

type_synonym table = "(string \<times> val) list"

text \<open>\<^verbatim>\<open>chartutil.Values\<close> is a map type, so a variable of it may be nil: \<open>None\<close>.\<close>

type_synonym Values = "table option"

fun len :: "Values \<Rightarrow> nat" where
  "len None = 0"
| "len (Some t) = length t"

text \<open>\<open>lookup m k\<close> is Go's \<^verbatim>\<open>v, ok := m[k]\<close>; reading a nil map finds nothing.\<close>

fun lookup :: "Values \<Rightarrow> string \<Rightarrow> val option" where
  "lookup None k = None"
| "lookup (Some t) k = map_of t k"

fun wf_Values :: "Values \<Rightarrow> bool" where
  "wf_Values None = True"
| "wf_Values (Some t) = distinct (map fst t)"

text \<open>A scalar of the data model that is not the absent marker.\<close>

fun is_scalar :: "val \<Rightarrow> bool" where
  "is_scalar (VBool b) = True"
| "is_scalar (VInt i) = True"
| "is_scalar (VStr s) = True"
| "is_scalar v = False"

subsection \<open>The library merge\<close>

text \<open>Modelled from the spec: \<^verbatim>\<open>chartutil.CoalesceTables\<close>, a function of the Helm
  library that is not among the sources. The specification (4.2), the contract
  \<^verbatim>\<open>contracts/values-api.md\<close> and the tests of \<^verbatim>\<open>MergeValues\<close> fix the tree it
  returns: the destination is authoritative; for each key of the source, a destination
  entry holding nil is deleted, a missing destination entry is filled from the source,
  two tables are merged recursively, and in every other case the destination entry stays
  (sequences and scalars are never merged). A nil source gives the destination and a nil
  destination gives the source. The library's table test is a type assertion to
  \<^verbatim>\<open>map[string]interface{}\<close>, so a nested \<open>VValues\<close> falls under the other
  cases.

  \<open>coalesceTablesFullKey dst src\<close> runs the loop \<^verbatim>\<open>for key, val := range src\<close>
  on two non-nil maps and returns the contents of \<open>dst\<close> afterwards. The library
  function merges the source map into the destination map it is given, as its
  documentation says, and returns that map; \<open>MergeValues\<close> below records which
  map of the component that is.
\<close>

function coalesceTablesFullKey :: "table \<Rightarrow> table \<Rightarrow> table" where
  "coalesceTablesFullKey dst [] = dst"
| "coalesceTablesFullKey dst ((key, v) # src) =
     coalesceTablesFullKey
       (case map_of dst key of
          None \<Rightarrow> AList.update key v dst
        | Some dv \<Rightarrow>
            if dv = VNull then AList.delete key dst
            else (case v of
                    VTable st \<Rightarrow>
                      (case dv of
                         VTable dt \<Rightarrow>
                           AList.update key (VTable (coalesceTablesFullKey dt st)) dst
                       | _ \<Rightarrow> dst)
                  | _ \<Rightarrow> dst))
       src"
  by pat_completeness auto
termination
  by (relation "measure (\<lambda>(dst, src). size_list (size_prod (\<lambda>_. 0) size) src)") auto

text \<open>Modelled from the spec: the entry point of the library merge, with its two nil cases.\<close>

definition CoalesceTables :: "Values \<Rightarrow> Values \<Rightarrow> Values" where
  "CoalesceTables dst src =
     (case src of
        None \<Rightarrow> dst
      | Some s \<Rightarrow>
          (case dst of
             None \<Rightarrow> src
           | Some d \<Rightarrow> Some (coalesceTablesFullKey d s)))"

section \<open>Errors\<close>

text \<open>
  The package's sentinel errors (\<^verbatim>\<open>errors.New\<close>). An error value is a sentinel,
  an error of a library (the loader, the YAML decoder, the template engine, a values
  generator), or the result of \<^verbatim>\<open>fmt.Errorf\<close>: its formatted message and the error
  its \<^verbatim>\<open>%w\<close> verb wraps, if the format has one. An argument formatted with
  \<^verbatim>\<open>%v\<close> contributes its text only.
\<close>

datatype sentinel =
    ErrChartNotFound
  | ErrChartLoadFailed
  | ErrDuplicateComponent
  | ErrInvalidConfig
  | ErrComponentNotFound
  | ErrValuesGeneration
  | ErrTemplateRendering
  | ErrInvalidManifest
  | ErrWatchRegistration
  | ErrInvalidGVK
  | ErrDiscoveryFailed

datatype error =
    Sentinel sentinel
  | LibraryError string
  | Errorf string "error option"

fun sentinel_text :: "sentinel \<Rightarrow> string" where
  "sentinel_text ErrChartNotFound = ''chart not found''"
| "sentinel_text ErrChartLoadFailed = ''chart load failed''"
| "sentinel_text ErrDuplicateComponent = ''duplicate component''"
| "sentinel_text ErrInvalidConfig = ''invalid component config''"
| "sentinel_text ErrComponentNotFound = ''component not found''"
| "sentinel_text ErrValuesGeneration = ''values generation failed''"
| "sentinel_text ErrTemplateRendering = ''template rendering failed''"
| "sentinel_text ErrInvalidManifest = ''invalid manifest''"
| "sentinel_text ErrWatchRegistration = ''watch registration failed''"
| "sentinel_text ErrInvalidGVK = ''invalid GVK''"
| "sentinel_text ErrDiscoveryFailed = ''discovery failed''"

fun error_Error :: "error \<Rightarrow> string" where
  "error_Error (Sentinel s) = sentinel_text s"
| "error_Error (LibraryError m) = m"
| "error_Error (Errorf m w) = m"

text \<open>\<^verbatim>\<open>errors.Is(err, target)\<close> for a sentinel target: it follows the wrapped errors.\<close>

fun errors_Is :: "error \<Rightarrow> sentinel \<Rightarrow> bool" where
  "errors_Is (Sentinel s) t = (s = t)"
| "errors_Is (LibraryError m) t = False"
| "errors_Is (Errorf m None) t = False"
| "errors_Is (Errorf m (Some e)) t = errors_Is e t"

text \<open>\<^verbatim>\<open>fmt.Errorf("%w: %v", s, err)\<close>, with \<open>detail\<close> the text of \<^verbatim>\<open>err\<close>.\<close>

definition wrap_sentinel :: "sentinel \<Rightarrow> string \<Rightarrow> error" where
  "wrap_sentinel s detail = Errorf (sentinel_text s @ '': '' @ detail) (Some (Sentinel s))"

section \<open>Charts, components and the registry\<close>

record File =
  file_Name :: string
  file_Data :: string

record chart =
  chart_Values :: Values
  chart_Templates :: "File list"
  chart_Files :: "File list"

record GroupVersionKind =
  Group :: string
  Version :: string
  Kind :: string

record 's ComponentConfig =
  ChartName :: string
  ValuesGenerator :: "('s \<Rightarrow> error + Values) option"
  Watches :: "GroupVersionKind list"

text \<open>
  \<^verbatim>\<open>HelmManagedComponent\<close> repeats the three fields of the configuration and adds
  the loaded chart (a pointer, nil before loading), the platform overrides and the map of
  pending watches. The mutexes guard concurrent access and have no sequential content.
\<close>

record 's HelmManagedComponent = "'s ComponentConfig" +
  Chart :: "chart option"
  RHOAIValues :: Values
  pendingWatches :: "(GroupVersionKind \<times> bool) list"

text \<open>
  The registry maps a name to a pointer to its component; a method that writes to the
  component through the pointer is modelled by writing the component back under its name.
\<close>

record 's HelmManagedComponentRegistry =
  components :: "(string \<times> 's HelmManagedComponent) list"

text \<open>
  What the code calls outside the repository: the chart loader, the YAML decoder (into a
  \<^verbatim>\<open>chartutil.Values\<close> and into an \<^verbatim>\<open>interface{}\<close>, where only the error is
  read), the template engine and \<^verbatim>\<open>filepath.Join\<close>. The engine returns a map from
  file name to text; its list stands for the order in which the map is ranged over.
\<close>

record externals =
  loader_Load :: "string \<Rightarrow> error + chart"
  yaml_Unmarshal_Values :: "string \<Rightarrow> error + Values"
  yaml_Unmarshal :: "string \<Rightarrow> error option"
  engine_Render :: "chart \<Rightarrow> Values \<Rightarrow> error + (string \<times> string) list"
  filepath_Join :: "string \<Rightarrow> string \<Rightarrow> string"

definition NewHelmManagedComponentRegistry :: "'s HelmManagedComponentRegistry" where
  "NewHelmManagedComponentRegistry = \<lparr>components = []\<rparr>"

definition GetComponent ::
  "'s HelmManagedComponentRegistry \<Rightarrow> string \<Rightarrow> 's HelmManagedComponent option" where
  "GetComponent r name = map_of (components r) name"

text \<open>
  \<open>ListComponents\<close> ranges over a Go map, whose order is not specified and may differ
  from call to call; the list below is one such order, and only its elements are used.
\<close>

definition ListComponents :: "'s HelmManagedComponentRegistry \<Rightarrow> string list" where
  "ListComponents r = map fst (components r)"

subsection \<open>Loading a chart\<close>

text \<open>
  \<open>extractRHOAIValues\<close> returns the error and the component as the method leaves it:
  the loop returns at the first file named \<^verbatim>\<open>values.rhoai.yaml\<close>.
\<close>

definition extractRHOAIValues ::
  "externals \<Rightarrow> 's HelmManagedComponent \<Rightarrow> error option \<times> 's HelmManagedComponent" where
  "extractRHOAIValues x c =
     (case Chart c of
        None \<Rightarrow> (Some (Errorf ''chart not loaded'' None), c)
      | Some ch \<Rightarrow>
          (case find (\<lambda>f. file_Name f = ''values.rhoai.yaml'') (chart_Files ch) of
             Some f \<Rightarrow>
               (case yaml_Unmarshal_Values x (file_Data f) of
                  Inl err \<Rightarrow>
                    (Some (Errorf (''invalid values.rhoai.yaml: '' @ error_Error err) (Some err)), c)
                | Inr rhoaiValues \<Rightarrow> (None, c\<lparr>RHOAIValues := rhoaiValues\<rparr>))
           | None \<Rightarrow> (None, c\<lparr>RHOAIValues := Some []\<rparr>)))"

text \<open>
  \<open>LoadChart\<close> returns the error, the component afterwards and the paths it handed to
  \<^verbatim>\<open>loader.Load\<close>, in order: the archive first, the unpacked directory when that
  fails. The error of \<open>extractRHOAIValues\<close> is dropped.
\<close>

definition LoadChart ::
  "externals \<Rightarrow> 's HelmManagedComponent \<Rightarrow> string
     \<Rightarrow> error option \<times> 's HelmManagedComponent \<times> string list" where
  "LoadChart x c chartPath =
     (let fullPath = filepath_Join x ''charts'' (chartPath @ ''.tgz'');
          dirPath = filepath_Join x ''charts'' chartPath;
          (loaded, loads) =
            (case loader_Load x fullPath of
               Inr ch \<Rightarrow> (Inr ch, [fullPath])
             | Inl e \<Rightarrow> (loader_Load x dirPath, [fullPath, dirPath]))
      in case loaded of
           Inl err \<Rightarrow>
             (Some (Errorf (''failed to load chart from '' @ fullPath @ '' or '' @ dirPath
                            @ '': '' @ error_Error err) (Some err)), c, loads)
         | Inr ch \<Rightarrow> (None, snd (extractRHOAIValues x (c\<lparr>Chart := Some ch\<rparr>)), loads))"

subsection \<open>Registration\<close>

definition validateComponentConfig :: "'s ComponentConfig \<Rightarrow> error option" where
  "validateComponentConfig config =
     (if ChartName config = '''' then Some (Errorf ''ChartName cannot be empty'' None)
      else if ValuesGenerator config = None then Some (Errorf ''ValuesGenerator cannot be nil'' None)
      else None)"

text \<open>
  \<open>Register\<close> returns the error, the registry afterwards and the paths handed to the
  loader during the call.
\<close>

definition Register ::
  "externals \<Rightarrow> 's HelmManagedComponentRegistry \<Rightarrow> string \<Rightarrow> 's ComponentConfig
     \<Rightarrow> error option \<times> 's HelmManagedComponentRegistry \<times> string list" where
  "Register x r name config =
     (case validateComponentConfig config of
        Some err \<Rightarrow> (Some (wrap_sentinel ErrInvalidConfig (error_Error err)), r, [])
      | None \<Rightarrow>
          if map_of (components r) name \<noteq> None
          then (Some (wrap_sentinel ErrDuplicateComponent
                        (''component '' @ [CHR 0x27] @ name @ [CHR 0x27] @ '' already registered'')),
                r, [])
          else
            (let component =
                   \<lparr>ChartName = ChartName config,
                    ValuesGenerator = ValuesGenerator config,
                    Watches = Watches config,
                    Chart = None,
                    RHOAIValues = None,
                    pendingWatches = []\<rparr>
             in case LoadChart x component (ChartName config) of
                  (Some err, c', loads) \<Rightarrow>
                    (Some (wrap_sentinel ErrChartLoadFailed (error_Error err)), r, loads)
                | (None, c', loads) \<Rightarrow>
                    (None, r\<lparr>components := AList.update name c' (components r)\<rparr>, loads)))"

subsection \<open>Merging values\<close>

text \<open>
  \<open>MergeValues\<close> returns the merged tree and the component afterwards. Step 2 passes
  the component's own \<open>RHOAIValues\<close> as the destination of \<open>CoalesceTables\<close>; a
  Go map is a reference, so what the merge writes into its destination is written into
  the component's field, which holds the merged tree after the call. Step 3 writes into
  the tree that the values generator returned, which is a new tree on every call.

  Trees are values here. For a component whose trees share no map, the tree returned and
  the trees of the component after the call are the code's. Where the loop fills a
  missing key of the destination with a table of the source (\<open>copies_table\<close> below),
  the code stores a reference to that table: after such a step 2 the overrides share the
  table with the chart defaults, and a later call, which merges the table with itself,
  also deletes its nil entries from the chart defaults. A later call is modelled as the
  code runs it when no earlier call copied a table.
\<close>

definition MergeValues ::
  "'s HelmManagedComponent \<Rightarrow> Values \<Rightarrow> Values \<times> 's HelmManagedComponent" where
  "MergeValues c componentValues =
     (case Chart c of
        None \<Rightarrow> (componentValues, c)
      | Some ch \<Rightarrow>
          (let result = chart_Values ch;
               (result, c) =
                 (if RHOAIValues c \<noteq> None \<and> len (RHOAIValues c) > 0
                  then (let merged = CoalesceTables (RHOAIValues c) result
                        in (merged, c\<lparr>RHOAIValues := merged\<rparr>))
                  else (result, c));
               result =
                 (if componentValues \<noteq> None \<and> len componentValues > 0
                  then CoalesceTables componentValues result
                  else result)
           in (result, c)))"


subsection \<open>Rendering\<close>

text \<open>\<^verbatim>\<open>strings.Contains\<close>.\<close>

fun strings_Contains :: "string \<Rightarrow> string \<Rightarrow> bool" where
  "strings_Contains [] substr = (substr = [])"
| "strings_Contains (c # s) substr =
     (if take (length substr) (c # s) = substr then True else strings_Contains s substr)"

definition shouldExcludeFile :: "string \<Rightarrow> bool" where
  "shouldExcludeFile filename =
     (if strings_Contains filename ''NOTES.txt'' then True
      else if strings_Contains filename ''/tests/'' then True
      else if strings_Contains filename ''/hooks/'' then True
      else False)"

definition validateYAML :: "externals \<Rightarrow> string \<Rightarrow> error option" where
  "validateYAML x content = yaml_Unmarshal x content"

text \<open>The loop of \<open>RenderTemplates\<close> over the rendered files, with \<open>filtered\<close> so far.\<close>

fun filterManifests ::
  "externals \<Rightarrow> (string \<times> string) list \<Rightarrow> (string \<times> string) list
     \<Rightarrow> error + (string \<times> string) list" where
  "filterManifests x [] filtered = Inr filtered"
| "filterManifests x ((filename, content) # manifests) filtered =
     (if shouldExcludeFile filename then filterManifests x manifests filtered
      else (case validateYAML x content of
              Some err \<Rightarrow>
                Inl (Errorf (''invalid YAML in '' @ filename @ '': '' @ error_Error err) (Some err))
            | None \<Rightarrow> filterManifests x manifests (AList.update filename content filtered)))"

definition RenderTemplates ::
  "externals \<Rightarrow> 's HelmManagedComponent \<Rightarrow> Values \<Rightarrow> error + (string \<times> string) list" where
  "RenderTemplates x c vals =
     (case Chart c of
        None \<Rightarrow> Inl (Errorf ''chart not loaded'' None)
      | Some ch \<Rightarrow>
          (case engine_Render x ch vals of
             Inl err \<Rightarrow> Inl (Errorf (''template rendering failed: '' @ error_Error err) (Some err))
           | Inr manifests \<Rightarrow> filterManifests x manifests []))"

text \<open>
  \<open>Render\<close> returns the manifests or the error, and the registry afterwards. A
  registered component has a values generator (\<open>Register\<close> refuses a nil one); calling a
  nil function value panics, which is the error \<open>LibraryError\<close> of the runtime here.
\<close>

definition Render ::
  "externals \<Rightarrow> 's HelmManagedComponentRegistry \<Rightarrow> string \<Rightarrow> 's
     \<Rightarrow> (error + (string \<times> string) list) \<times> 's HelmManagedComponentRegistry" where
  "Render x r name spec =
     (case GetComponent r name of
        None \<Rightarrow>
          (Inl (wrap_sentinel ErrComponentNotFound
                  (''component '' @ [CHR 0x27] @ name @ [CHR 0x27] @ '' not registered'')), r)
      | Some component \<Rightarrow>
          (case ValuesGenerator component of
             None \<Rightarrow> (Inl (LibraryError ''panic: nil function call''), r)
           | Some generate \<Rightarrow>
               (case generate spec of
                  Inl err \<Rightarrow> (Inl (wrap_sentinel ErrValuesGeneration (error_Error err)), r)
                | Inr componentValues \<Rightarrow>
                    (let (finalValues, component) = MergeValues component componentValues;
                         r = r\<lparr>components := AList.update name component (components r)\<rparr>
                     in case RenderTemplates x component finalValues of
                          Inl err \<Rightarrow> (Inl (wrap_sentinel ErrTemplateRendering (error_Error err)), r)
                        | Inr manifests \<Rightarrow> (Inr manifests, r)))))"

section \<open>Watches\<close>

record CustomResourceDefinitionVersion =
  version_Name :: string
  version_Served :: bool

record CustomResourceDefinition =
  Spec_Group :: string
  Spec_Names_Kind :: string
  Spec_Versions :: "CustomResourceDefinitionVersion list"

definition getServedVersion :: "CustomResourceDefinition \<Rightarrow> string" where
  "getServedVersion crd =
     (case find version_Served (Spec_Versions crd) of
        Some v \<Rightarrow> version_Name v
      | None \<Rightarrow>
          (case Spec_Versions crd of
             v # vs \<Rightarrow> version_Name v
           | [] \<Rightarrow> ''''))"

text \<open>The tuple that both \<open>HasPendingWatchForCRD\<close> and \<open>RegisterPendingWatch\<close> build.\<close>

definition crdGVK :: "CustomResourceDefinition \<Rightarrow> GroupVersionKind" where
  "crdGVK crd =
     \<lparr>Group = Spec_Group crd, Version = getServedVersion crd, Kind = Spec_Names_Kind crd\<rparr>"

definition HasPendingWatches :: "'s HelmManagedComponent \<Rightarrow> bool" where
  "HasPendingWatches c = (length (pendingWatches c) > 0)"

definition HasPendingWatchForCRD ::
  "'s HelmManagedComponent \<Rightarrow> CustomResourceDefinition \<Rightarrow> bool" where
  "HasPendingWatchForCRD c crd =
     (case map_of (pendingWatches c) (crdGVK crd) of
        Some pending \<Rightarrow> pending
      | None \<Rightarrow> False)"

definition MarkWatchRegistered ::
  "'s HelmManagedComponent \<Rightarrow> GroupVersionKind \<Rightarrow> 's HelmManagedComponent" where
  "MarkWatchRegistered c gvk = c\<lparr>pendingWatches := AList.delete gvk (pendingWatches c)\<rparr>"

text \<open>The controller and the handler are not used by the body.\<close>

definition RegisterPendingWatch ::
  "'s HelmManagedComponent \<Rightarrow> CustomResourceDefinition
     \<Rightarrow> error option \<times> 's HelmManagedComponent" where
  "RegisterPendingWatch c crd =
     (if \<not> HasPendingWatchForCRD c crd then (None, c)
      else (None, MarkWatchRegistered c (crdGVK crd)))"

definition isBuiltInType :: "GroupVersionKind \<Rightarrow> bool" where
  "isBuiltInType gvk =
     (Group gvk \<in> set ['''', ''apps'', ''batch'', ''networking.k8s.io'', ''policy'',
                        ''rbac.authorization.k8s.io''])"

definition registerWatch :: "'s HelmManagedComponent \<Rightarrow> GroupVersionKind \<Rightarrow> error option" where
  "registerWatch c gvk = None"

text \<open>
  The loop of \<open>AddWatches\<close> over the declared watches. The method first replaces
  a nil map of pending watches by an empty one, which are the same list here.
\<close>

fun addWatchesLoop ::
  "GroupVersionKind list \<Rightarrow> 's HelmManagedComponent \<Rightarrow> 's HelmManagedComponent" where
  "addWatchesLoop [] c = c"
| "addWatchesLoop (gvk # gvks) c =
     (if isBuiltInType gvk
      then (case registerWatch c gvk of
              Some err \<Rightarrow> addWatchesLoop gvks c
            | None \<Rightarrow> addWatchesLoop gvks c)
      else addWatchesLoop gvks (c\<lparr>pendingWatches := AList.update gvk True (pendingWatches c)\<rparr>))"

definition AddWatches :: "'s HelmManagedComponent \<Rightarrow> error option \<times> 's HelmManagedComponent" where
  "AddWatches c = (None, addWatchesLoop (Watches c) c)"

section \<open>Reading a merged tree\<close>

text \<open>
  What one pass of the loop leaves under a key, from the destination's entry \<open>d\<close> and
  the source's entry \<open>s\<close> under that key (used to state the lemmas about lookups).
\<close>

definition entry_after :: "val option \<Rightarrow> val option \<Rightarrow> val option" where
  "entry_after d s =
     (case s of
        None \<Rightarrow> d
      | Some v \<Rightarrow>
          (case d of
             None \<Rightarrow> Some v
           | Some dv \<Rightarrow>
               if dv = VNull then None
               else (case v of
                       VTable st \<Rightarrow>
                         (case dv of
                            VTable dt \<Rightarrow> Some (VTable (coalesceTablesFullKey dt st))
                          | _ \<Rightarrow> Some dv)
                     | _ \<Rightarrow> Some dv)))"

section \<open>Sample data\<close>

definition chart_of :: "Values \<Rightarrow> chart" where
  "chart_of d = \<lparr>chart_Values = d, chart_Templates = [], chart_Files = []\<rparr>"

text \<open>A loaded component with chart defaults \<open>d\<close> and platform overrides \<open>ov\<close>.\<close>

definition component_of :: "Values \<Rightarrow> Values \<Rightarrow> unit HelmManagedComponent" where
  "component_of d ov =
     \<lparr>ChartName = ''demo'', ValuesGenerator = None, Watches = [],
      Chart = Some (chart_of d), RHOAIValues = ov, pendingWatches = []\<rparr>"

section \<open>The state of a watch\<close>

text \<open>
  The code keeps one map per component. A descriptor is pending when the map binds it to
  true, which is what \<open>HasPendingWatchForCRD\<close> tests; there is no separate record of
  the active descriptors.
\<close>

definition is_pending :: "'s HelmManagedComponent \<Rightarrow> GroupVersionKind \<Rightarrow> bool" where
  "is_pending c gvk = (map_of (pendingWatches c) gvk = Some True)"

text \<open>
  A call of a method of a component that writes to it, other than \<open>AddWatches\<close>, and
  the component after a sequence of such calls.
\<close>

datatype component_call =
    Call_RegisterPendingWatch CustomResourceDefinition
  | Call_MarkWatchRegistered GroupVersionKind
  | Call_LoadChart externals string
  | Call_extractRHOAIValues externals
  | Call_MergeValues Values

fun run_call :: "component_call \<Rightarrow> 's HelmManagedComponent \<Rightarrow> 's HelmManagedComponent" where
  "run_call (Call_RegisterPendingWatch crd) c = snd (RegisterPendingWatch c crd)"
| "run_call (Call_MarkWatchRegistered gvk) c = MarkWatchRegistered c gvk"
| "run_call (Call_LoadChart x chartPath) c = fst (snd (LoadChart x c chartPath))"
| "run_call (Call_extractRHOAIValues x) c = snd (extractRHOAIValues x c)"
| "run_call (Call_MergeValues componentValues) c = snd (MergeValues c componentValues)"

fun run_calls :: "component_call list \<Rightarrow> 's HelmManagedComponent \<Rightarrow> 's HelmManagedComponent" where
  "run_calls [] c = c"
| "run_calls (call # calls) c = run_calls calls (run_call call c)"

text \<open>The component and the definitions of the watch tests of the repository.\<close>

definition custom_gvk :: GroupVersionKind where
  "custom_gvk = \<lparr>Group = ''custom.io'', Version = ''v1alpha1'', Kind = ''CustomResource''\<rparr>"

definition custom_crd :: CustomResourceDefinition where
  "custom_crd =
     \<lparr>Spec_Group = ''custom.io'', Spec_Names_Kind = ''CustomResource'',
      Spec_Versions = [\<lparr>version_Name = ''v1alpha1'', version_Served = True\<rparr>]\<rparr>"

definition other_crd :: CustomResourceDefinition where
  "other_crd =
     \<lparr>Spec_Group = ''other.io'', Spec_Names_Kind = ''OtherResource'',
      Spec_Versions = [\<lparr>version_Name = ''v1'', version_Served = True\<rparr>]\<rparr>"

definition watching_component :: "unit HelmManagedComponent" where
  "watching_component =
     \<lparr>ChartName = ''test-chart'', ValuesGenerator = None,
      Watches = [\<lparr>Group = ''apps'', Version = ''v1'', Kind = ''Deployment''\<rparr>, custom_gvk],
      Chart = None, RHOAIValues = None, pendingWatches = []\<rparr>"

text \<open>
  Bundles for concrete runs. The engine binds the \<^verbatim>\<open>.Values\<close> of a root chart's
  templates to the entry \<open>Values\<close> of the tree it is given, so the chart \<open>demo\<close>
  keeps its setting there: the default \<^verbatim>\<open>Values: {a: "1"}\<close>, one template
  \<^verbatim>\<open>a: {{ .Values.a }}\<close> and the override file \<^verbatim>\<open>Values: null\<close>. The chart
  \<open>broken\<close> has an override file that is not YAML, and the chart \<open>nested\<close> has the
  defaults \<^verbatim>\<open>a: {x: 1, y: 2}\<close> and the override file \<^verbatim>\<open>a: {x: 9}\<close>.

  The libraries are given at these inputs. The loader finds the three archives. The
  decoder reads \<^verbatim>\<open>Values: null\<close> as a map that binds \<open>Values\<close> to nil and
  \<^verbatim>\<open>a: {x: 9}\<close> as a map whose nested mapping has the type
  \<^verbatim>\<open>chartutil.Values\<close>, and rejects the text \<^verbatim>\<open>a: [1\<close>. The engine fills the
  template with the string under \<open>a\<close> (nothing for a missing key) and fails where
  \<^verbatim>\<open>.Values\<close> is nil or missing. The generator binds \<open>a\<close> under \<open>Values\<close> to the
  specification string when it is not empty.
\<close>

definition demo_chart :: chart where
  "demo_chart =
     \<lparr>chart_Values = Some [(''Values'', VTable [(''a'', VStr ''1'')])],
      chart_Templates = [\<lparr>file_Name = ''templates/cm.yaml'', file_Data = ''a: {{ .Values.a }}''\<rparr>],
      chart_Files = [\<lparr>file_Name = ''values.rhoai.yaml'', file_Data = ''Values: null''\<rparr>]\<rparr>"

definition broken_chart :: chart where
  "broken_chart = demo_chart\<lparr>chart_Files :=
     [\<lparr>file_Name = ''README.md'', file_Data = ''demo''\<rparr>,
      \<lparr>file_Name = ''values.rhoai.yaml'', file_Data = ''a: [1''\<rparr>]\<rparr>"

definition nested_chart :: chart where
  "nested_chart =
     \<lparr>chart_Values = Some [(''a'', VTable [(''x'', VInt 1), (''y'', VInt 2)])],
      chart_Templates = [],
      chart_Files = [\<lparr>file_Name = ''values.rhoai.yaml'', file_Data = ''a: {x: 9}''\<rparr>]\<rparr>"

definition demo_template :: "table \<Rightarrow> error + (string \<times> string) list" where
  "demo_template t =
     Inr [(''demo/templates/cm.yaml'',
           ''a: '' @ (case map_of t ''a'' of Some (VStr s) \<Rightarrow> s | _ \<Rightarrow> ''''))]"

definition demo_externals :: externals where
  "demo_externals =
     \<lparr>loader_Load = (\<lambda>path.
        if path = ''charts/demo.tgz'' then Inr demo_chart
        else if path = ''charts/broken.tgz'' then Inr broken_chart
        else if path = ''charts/nested.tgz'' then Inr nested_chart
        else Inl (LibraryError ''no such file or directory'')),
      yaml_Unmarshal_Values = (\<lambda>data.
        if data = ''Values: null'' then Inr (Some [(''Values'', VNull)])
        else if data = ''a: {x: 9}'' then Inr (Some [(''a'', VValues [(''x'', VInt 9)])])
        else Inl (LibraryError ''yaml: did not find expected node content'')),
      yaml_Unmarshal = (\<lambda>content.
        if content = ''a: [1'' then Some (LibraryError ''yaml: did not find expected node content'')
        else None),
      engine_Render = (\<lambda>ch vals.
        case lookup vals ''Values'' of
          Some (VTable t) \<Rightarrow> demo_template t
        | Some (VValues t) \<Rightarrow> demo_template t
        | _ \<Rightarrow> Inl (LibraryError ''nil pointer evaluating interface {}.a'')),
      filepath_Join = (\<lambda>dir name. dir @ ''/'' @ name)\<rparr>"

definition demo_generator :: "string \<Rightarrow> error + Values" where
  "demo_generator spec =
     (if spec = '''' then Inr (Some [])
      else Inr (Some [(''Values'', VTable [(''a'', VStr spec)])]))"

definition demo_config :: "string ComponentConfig" where
  "demo_config =
     \<lparr>ChartName = ''demo'', ValuesGenerator = Some demo_generator, Watches = [custom_gvk]\<rparr>"

definition demo_registry :: "string HelmManagedComponentRegistry" where
  "demo_registry =
     fst (snd (Register demo_externals NewHelmManagedComponentRegistry ''demo'' demo_config))"

section \<open>Lemmas about the merge\<close>

lemma coalesce_step_lookup:
  "map_of (case map_of dst key of
          None \<Rightarrow> AList.update key v dst
        | Some dv \<Rightarrow>
            if dv = VNull then AList.delete key dst
            else (case v of
                    VTable st \<Rightarrow>
                      (case dv of
                         VTable dt \<Rightarrow>
                           AList.update key (VTable (coalesceTablesFullKey dt st)) dst
                       | _ \<Rightarrow> dst)
                  | _ \<Rightarrow> dst)) k =
   (if k = key then entry_after (map_of dst key) (Some v) else map_of dst k)"
  by (auto simp: entry_after_def update_conv' delete_conv' split: option.splits val.splits)

lemma coalesce_lookup:
  "distinct (map fst src) \<Longrightarrow>
   map_of (coalesceTablesFullKey dst src) k = entry_after (map_of dst k) (map_of src k)"
proof (induction src arbitrary: dst)
  case Nil
  then show ?case by (simp add: entry_after_def)
next
  case (Cons p src)
  obtain key v where p: "p = (key, v)" by (cases p)
  from Cons.prems p have d: "distinct (map fst src)" and nk: "key \<notin> fst ` set src" by auto
  from nk have none: "map_of src key = None" by (simp add: map_of_eq_None_iff)
  show ?case
  proof (cases "k = key")
    case True
    then show ?thesis
      unfolding p coalesceTablesFullKey.simps Cons.IH [OF d] coalesce_step_lookup
      using none by (simp add: entry_after_def)
  next
    case False
    then show ?thesis
      unfolding p coalesceTablesFullKey.simps Cons.IH [OF d] coalesce_step_lookup
      by simp
  qed
qed

lemma step_keys_distinct:
  "distinct (map fst dst) \<Longrightarrow>
   distinct (map fst (case map_of dst key of
          None \<Rightarrow> AList.update key v dst
        | Some dv \<Rightarrow>
            if dv = VNull then AList.delete key dst
            else (case v of
                    VTable st \<Rightarrow>
                      (case dv of
                         VTable dt \<Rightarrow>
                           AList.update key (VTable (coalesceTablesFullKey dt st)) dst
                       | _ \<Rightarrow> dst)
                  | _ \<Rightarrow> dst)))"
  by (auto simp: distinct_update distinct_delete split: option.splits val.splits)

lemma coalesce_distinct:
  "distinct (map fst dst) \<Longrightarrow> distinct (map fst (coalesceTablesFullKey dst src))"
proof (induction src arbitrary: dst)
  case Nil
  then show ?case by simp
next
  case (Cons p src)
  obtain key v where p: "p = (key, v)" by (cases p)
  show ?case
    unfolding p coalesceTablesFullKey.simps
    by (rule Cons.IH) (rule step_keys_distinct [OF Cons.prems])
qed

lemma CoalesceTables_lookup:
  "wf_Values src \<Longrightarrow>
   lookup (CoalesceTables dst src) k = entry_after (lookup dst k) (lookup src k)"
  by (cases src; cases dst)
     (simp_all add: CoalesceTables_def coalesce_lookup entry_after_def split: option.splits)

lemma CoalesceTables_wf:
  "wf_Values dst \<Longrightarrow> wf_Values src \<Longrightarrow> wf_Values (CoalesceTables dst src)"
  by (cases src; cases dst) (simp_all add: CoalesceTables_def coalesce_distinct)

lemma lookup_len_0: "len v = 0 \<Longrightarrow> lookup v k = None"
  by (cases v) simp_all

text \<open>The tree after step 2 of \<open>MergeValues\<close>: the overrides folded onto the defaults.\<close>

lemma MergeValues_nil:
  "Chart c = Some ch \<Longrightarrow>
   fst (MergeValues c None) =
     (if RHOAIValues c \<noteq> None \<and> len (RHOAIValues c) > 0
      then CoalesceTables (RHOAIValues c) (chart_Values ch) else chart_Values ch)"
  by (simp add: MergeValues_def Let_def)

lemma MergeValues_fold:
  "Chart c = Some ch \<Longrightarrow>
   fst (MergeValues c componentValues) =
     (if componentValues \<noteq> None \<and> len componentValues > 0
      then CoalesceTables componentValues (fst (MergeValues c None))
      else fst (MergeValues c None))"
  by (simp add: MergeValues_def Let_def)

lemma MergeValues_nil_lookup:
  assumes "Chart c = Some ch" and "wf_Values (chart_Values ch)"
  shows "lookup (fst (MergeValues c None)) k =
           entry_after (lookup (RHOAIValues c) k) (lookup (chart_Values ch) k)"
proof (cases "RHOAIValues c \<noteq> None \<and> len (RHOAIValues c) > 0")
  case True
  then show ?thesis
    using assms by (simp add: MergeValues_nil CoalesceTables_lookup)
next
  case False
  then have "lookup (RHOAIValues c) k = None"
    by (cases "RHOAIValues c") simp_all
  with False show ?thesis
    using assms by (auto simp: MergeValues_nil entry_after_def split: option.splits)
qed

lemma MergeValues_nil_wf:
  assumes "Chart c = Some ch" and "wf_Values (chart_Values ch)" and "wf_Values (RHOAIValues c)"
  shows "wf_Values (fst (MergeValues c None))"
  using assms by (simp add: MergeValues_nil CoalesceTables_wf)

lemma MergeValues_lookup:
  assumes "Chart c = Some ch" and "wf_Values (chart_Values ch)" and "wf_Values (RHOAIValues c)"
  shows "lookup (fst (MergeValues c componentValues)) k =
           entry_after (lookup componentValues k) (lookup (fst (MergeValues c None)) k)"
proof (cases "componentValues \<noteq> None \<and> len componentValues > 0")
  case True
  then show ?thesis
    using assms
    by (simp add: MergeValues_fold [OF assms(1), of componentValues]
                  CoalesceTables_lookup MergeValues_nil_wf)
next
  case False
  then have "lookup componentValues k = None"
    by (cases componentValues) simp_all
  with False show ?thesis
    using assms
    by (auto simp: MergeValues_fold [OF assms(1), of componentValues] entry_after_def
             split: option.splits)
qed

section \<open>The registered sample bundle\<close>

lemma demo_registry_eq:
  "demo_registry =
     \<lparr>components = [(''demo'',
        \<lparr>ChartName = ''demo'', ValuesGenerator = Some demo_generator, Watches = [custom_gvk],
         Chart = Some demo_chart, RHOAIValues = Some [(''Values'', VNull)],
         pendingWatches = []\<rparr>)]\<rparr>"
  by (simp add: demo_registry_def Register_def validateComponentConfig_def demo_config_def
                NewHelmManagedComponentRegistry_def LoadChart_def demo_externals_def Let_def
                extractRHOAIValues_def demo_chart_def)

section \<open>Merge precedence\<close>

text \<open>
  Claim C3. With a loaded chart, for every key that the chart defaults, the platform
  overrides and the component values all bind to a scalar, the merged tree binds the key
  to the component's value; when the component values omit the key, it is bound to the
  override's value; when the overrides omit it too, it is bound to the default's value.
  The trees are well-formed maps (one entry per key).
\<close>

theorem MergeValues_precedence:
  assumes "Chart c = Some ch"
    and "wf_Values (chart_Values ch)"
    and "wf_Values (RHOAIValues c)"
    and "lookup (chart_Values ch) k = Some d"
    and "is_scalar d"
  shows "(\<forall>ov cv. lookup (RHOAIValues c) k = Some ov \<and> is_scalar ov \<and>
            lookup componentValues k = Some cv \<and> is_scalar cv \<longrightarrow>
            lookup (fst (MergeValues c componentValues)) k = Some cv)
       \<and> (\<forall>ov. lookup (RHOAIValues c) k = Some ov \<and> is_scalar ov \<and>
            lookup componentValues k = None \<longrightarrow>
            lookup (fst (MergeValues c componentValues)) k = Some ov)
       \<and> (lookup (RHOAIValues c) k = None \<and> lookup componentValues k = None \<longrightarrow>
            lookup (fst (MergeValues c componentValues)) k = Some d)"
proof -
  have scalar: "\<And>v w. is_scalar v \<Longrightarrow> entry_after (Some v) w = Some v"
    by (case_tac v; case_tac w) (auto simp: entry_after_def split: val.splits)
  have low: "lookup (fst (MergeValues c None)) k =
               entry_after (lookup (RHOAIValues c) k) (Some d)"
    using MergeValues_nil_lookup [OF assms(1,2), of k] assms(4) by simp
  have top: "lookup (fst (MergeValues c componentValues)) k =
               entry_after (lookup componentValues k) (lookup (fst (MergeValues c None)) k)"
    by (rule MergeValues_lookup [OF assms(1,2,3)])
  show ?thesis
    unfolding top low
    by (auto simp: scalar) (simp_all add: entry_after_def)
qed

theorem MergeValues_precedence_witness:
  "lookup (fst (MergeValues
       (component_of (Some [(''replicas'', VInt 1)]) (Some [(''replicas'', VInt 2)]))
       (Some [(''replicas'', VInt 3)]))) ''replicas'' = Some (VInt 3)
   \<and> lookup (fst (MergeValues
       (component_of (Some [(''replicas'', VInt 1)]) (Some [(''replicas'', VInt 2)]))
       (Some [(''other'', VBool True)]))) ''replicas'' = Some (VInt 2)
   \<and> lookup (fst (MergeValues
       (component_of (Some [(''replicas'', VInt 1)]) (Some [(''size'', VStr ''1Gi'')]))
       (Some [(''other'', VBool True)]))) ''replicas'' = Some (VInt 1)"
proof -
  let ?d = "Some [(''replicas'', VInt 1)]"
  let ?c1 = "component_of ?d (Some [(''replicas'', VInt 2)])"
  let ?c2 = "component_of ?d (Some [(''size'', VStr ''1Gi'')])"
  have a: "Chart ?c1 = Some (chart_of ?d)" "Chart ?c2 = Some (chart_of ?d)"
    by (simp_all add: component_of_def)
  have b: "wf_Values (chart_Values (chart_of ?d))"
    by (simp add: chart_of_def)
  have c: "wf_Values (RHOAIValues ?c1)" "wf_Values (RHOAIValues ?c2)"
    by (simp_all add: component_of_def)
  have d: "lookup (chart_Values (chart_of ?d)) ''replicas'' = Some (VInt 1)"
    by (simp add: chart_of_def)
  have e: "is_scalar (VInt 1)" by simp
  note t1 = MergeValues_precedence [OF a(1) b c(1) d e, of "Some [(''replicas'', VInt 3)]"]
  note t2 = MergeValues_precedence [OF a(1) b c(1) d e, of "Some [(''other'', VBool True)]"]
  note t3 = MergeValues_precedence [OF a(2) b c(2) d e, of "Some [(''other'', VBool True)]"]
  have r1: "lookup (RHOAIValues ?c1) ''replicas'' = Some (VInt 2)"
    by (simp add: component_of_def)
  have r2: "lookup (RHOAIValues ?c2) ''replicas'' = None"
    by (simp add: component_of_def)
  from t1 r1 have g1: "lookup (fst (MergeValues ?c1 (Some [(''replicas'', VInt 3)]))) ''replicas''
                         = Some (VInt 3)"
    by simp
  from t2 r1 have g2: "lookup (fst (MergeValues ?c1 (Some [(''other'', VBool True)]))) ''replicas''
                         = Some (VInt 2)"
    by simp
  from t3 r2 have g3: "lookup (fst (MergeValues ?c2 (Some [(''other'', VBool True)]))) ''replicas''
                         = Some (VInt 1)"
    by simp
  from g1 g2 g3 show ?thesis by simp
qed

section \<open>Null deletes\<close>






section \<open>Deep merge\<close>

text \<open>
  Two tables of the type \<^verbatim>\<open>map[string]interface{}\<close> are merged key by key, in step
  2 (overrides over defaults) and in step 3 (component values over the result of step 2),
  and a key that only the lower table has keeps its value.
\<close>

lemma MergeValues_tables_overrides:
  assumes "Chart c = Some ch"
    and "wf_Values (chart_Values ch)"
    and "lookup (RHOAIValues c) k = Some (VTable tov)"
    and "lookup (chart_Values ch) k = Some (VTable td)"
  shows "lookup (fst (MergeValues c None)) k = Some (VTable (coalesceTablesFullKey tov td))"
  unfolding MergeValues_nil_lookup [OF assms(1,2), of k] assms(3,4)
  by (simp add: entry_after_def)

lemma MergeValues_tables:
  assumes "Chart c = Some ch"
    and "wf_Values (chart_Values ch)"
    and "wf_Values (RHOAIValues c)"
    and "lookup componentValues k = Some (VTable tc)"
    and "lookup (fst (MergeValues c None)) k = Some (VTable tlow)"
  shows "lookup (fst (MergeValues c componentValues)) k
           = Some (VTable (coalesceTablesFullKey tc tlow))"
  unfolding MergeValues_lookup [OF assms(1,2,3), of componentValues k] assms(4,5)
  by (simp add: entry_after_def)

lemma coalesce_sibling:
  "distinct (map fst tlow) \<Longrightarrow> map_of tc j = None \<Longrightarrow> map_of tlow j = Some v \<Longrightarrow>
   map_of (coalesceTablesFullKey tc tlow) j = Some v"
  by (simp add: coalesce_lookup entry_after_def)

text \<open>The example of the specification: defaults, no overrides, component values.\<close>

lemma MergeValues_deep_merge_example:
  "fst (MergeValues
          (component_of (Some [(''a'', VTable [(''x'', VInt 1), (''y'', VInt 2)])]) (Some []))
          (Some [(''a'', VTable [(''x'', VInt 9)])]))
     = Some [(''a'', VTable [(''x'', VInt 9), (''y'', VInt 2)])]"
  by (simp add: MergeValues_def component_of_def chart_of_def CoalesceTables_def Let_def)

text \<open>
  A nested map of the overrides that is not such a table replaces the table of the chart
  defaults, and is itself set aside by a table of the component values.
\<close>

lemma MergeValues_values_not_merged:
  assumes "Chart c = Some ch"
    and "wf_Values (chart_Values ch)"
    and "wf_Values (RHOAIValues c)"
    and "lookup (RHOAIValues c) k = Some (VValues tov)"
  shows "lookup (fst (MergeValues c None)) k = Some (VValues tov)"
    and "lookup componentValues k = Some (VTable tc) \<Longrightarrow>
         lookup (fst (MergeValues c componentValues)) k = Some (VTable tc)"
proof -
  show low: "lookup (fst (MergeValues c None)) k = Some (VValues tov)"
    unfolding MergeValues_nil_lookup [OF assms(1,2), of k] assms(4)
    by (simp add: entry_after_def split: option.splits val.splits)
  show "lookup componentValues k = Some (VTable tc) \<Longrightarrow>
        lookup (fst (MergeValues c componentValues)) k = Some (VTable tc)"
    unfolding MergeValues_lookup [OF assms(1,2,3), of componentValues k] low
    by (simp add: entry_after_def)
qed

text \<open>
  Claim C5 at a failing input: the chart defaults bind \<open>a\<close> to the table
  \<open>{x: 1, y: 2}\<close> and the override file of the bundle is \<^verbatim>\<open>a: {x: 9}\<close>. The
  decoder of \<open>extractRHOAIValues\<close> gives the nested mapping the type
  \<^verbatim>\<open>chartutil.Values\<close>, the merge does not take it for a table, and the merged tree
  binds \<open>a\<close> to \<open>{x: 9}\<close> alone: the sibling \<open>y\<close> of the lower-precedence mapping
  is lost.
\<close>

theorem MergeValues_loaded_overrides_not_merged:
  "fst (Register demo_externals NewHelmManagedComponentRegistry ''nested''
          (demo_config\<lparr>ChartName := ''nested''\<rparr>)) = None
   \<and> map_option (\<lambda>c. (map_option chart_Values (Chart c), RHOAIValues c))
        (GetComponent
           (fst (snd (Register demo_externals NewHelmManagedComponentRegistry ''nested''
                        (demo_config\<lparr>ChartName := ''nested''\<rparr>)))) ''nested'')
       = Some (Some (Some [(''a'', VTable [(''x'', VInt 1), (''y'', VInt 2)])]),
               Some [(''a'', VValues [(''x'', VInt 9)])])
   \<and> map_option (\<lambda>c. fst (MergeValues c (Some [])))
        (GetComponent
           (fst (snd (Register demo_externals NewHelmManagedComponentRegistry ''nested''
                        (demo_config\<lparr>ChartName := ''nested''\<rparr>)))) ''nested'')
       = Some (Some [(''a'', VValues [(''x'', VInt 9)])])"
proof -
  have r: "Register demo_externals NewHelmManagedComponentRegistry ''nested''
             (demo_config\<lparr>ChartName := ''nested''\<rparr>)
           = (None,
              \<lparr>components = [(''nested'',
                 \<lparr>ChartName = ''nested'', ValuesGenerator = Some demo_generator,
                  Watches = [custom_gvk], Chart = Some nested_chart,
                  RHOAIValues = Some [(''a'', VValues [(''x'', VInt 9)])],
                  pendingWatches = []\<rparr>)]\<rparr>,
              [''charts/nested.tgz''])"
    by (simp add: Register_def validateComponentConfig_def demo_config_def
                  NewHelmManagedComponentRegistry_def LoadChart_def demo_externals_def Let_def
                  extractRHOAIValues_def nested_chart_def)
  show ?thesis
    unfolding r
    by (simp add: GetComponent_def MergeValues_def Let_def CoalesceTables_def nested_chart_def)
qed

section \<open>Pending watches\<close>

lemma crdGVK_fields:
  "(Spec_Group crd = Group d \<and> getServedVersion crd = Version d \<and> Spec_Names_Kind crd = Kind d)
     = (d = crdGVK crd)"
  by (cases d) (auto simp: crdGVK_def)

lemma HasPendingWatchForCRD_is_pending:
  "HasPendingWatchForCRD c crd = is_pending c (crdGVK crd)"
  by (simp add: HasPendingWatchForCRD_def is_pending_def split: option.splits)

lemma is_pending_MarkWatchRegistered:
  "is_pending (MarkWatchRegistered c gvk) d = (d \<noteq> gvk \<and> is_pending c d)"
  by (simp add: is_pending_def MarkWatchRegistered_def delete_conv')

lemma getServedVersion_first_served:
  assumes "find version_Served (Spec_Versions crd) = Some v"
  shows "getServedVersion crd = version_Name v \<and> version_Served v \<and> v \<in> set (Spec_Versions crd)"
proof -
  have "getServedVersion crd = version_Name v"
    using assms by (simp add: getServedVersion_def)
  moreover have "version_Served v \<and> v \<in> set (Spec_Versions crd)"
    using assms by (auto simp: find_Some_iff)
  ultimately show ?thesis by simp
qed

lemma pendingWatches_extractRHOAIValues:
  "pendingWatches (snd (extractRHOAIValues x c)) = pendingWatches c"
  by (simp add: extractRHOAIValues_def split: option.splits sum.splits)

lemma pendingWatches_LoadChart:
  "pendingWatches (fst (snd (LoadChart x c chartPath))) = pendingWatches c"
  by (simp add: LoadChart_def Let_def pendingWatches_extractRHOAIValues
           split: sum.splits prod.splits)

lemma pendingWatches_MergeValues:
  "pendingWatches (snd (MergeValues c componentValues)) = pendingWatches c"
  by (simp add: MergeValues_def Let_def split: option.splits)

lemma run_call_not_pending:
  "\<not> is_pending c d \<Longrightarrow> \<not> is_pending (run_call call c) d"
proof (cases call)
  case (Call_RegisterPendingWatch crd)
  assume "\<not> is_pending c d"
  then show ?thesis
    by (simp add: Call_RegisterPendingWatch RegisterPendingWatch_def is_pending_MarkWatchRegistered)
next
  case (Call_MarkWatchRegistered gvk)
  assume "\<not> is_pending c d"
  then show ?thesis
    by (simp add: Call_MarkWatchRegistered is_pending_MarkWatchRegistered)
next
  case (Call_LoadChart x chartPath)
  assume "\<not> is_pending c d"
  then show ?thesis
    by (simp add: Call_LoadChart is_pending_def pendingWatches_LoadChart)
next
  case (Call_extractRHOAIValues x)
  assume "\<not> is_pending c d"
  then show ?thesis
    by (simp add: Call_extractRHOAIValues is_pending_def pendingWatches_extractRHOAIValues)
next
  case (Call_MergeValues componentValues)
  assume "\<not> is_pending c d"
  then show ?thesis
    by (simp add: Call_MergeValues is_pending_def pendingWatches_MergeValues)
qed

lemma run_calls_not_pending:
  "\<not> is_pending c d \<Longrightarrow> \<not> is_pending (run_calls calls c) d"
  by (induction calls arbitrary: c) (simp_all add: run_call_not_pending)

text \<open>
  What the code computes: \<open>HasPendingWatchForCRD\<close> looks the tuple of the definition
  up in the map of pending watches, and \<open>AddWatches\<close> is what enters the declared
  descriptors outside the built-in groups into that map.
\<close>

lemma HasPendingWatchForCRD_promoted:
  "\<not> HasPendingWatchForCRD (MarkWatchRegistered c (crdGVK crd)) crd"
  "\<not> HasPendingWatchForCRD (snd (RegisterPendingWatch c crd)) crd"
  by (simp_all add: RegisterPendingWatch_def HasPendingWatchForCRD_is_pending
                    is_pending_MarkWatchRegistered)

lemma addWatchesLoop_pending:
  "is_pending (addWatchesLoop gvks c) d
     = (is_pending c d \<or> (d \<in> set gvks \<and> \<not> isBuiltInType d))"
proof (induction gvks arbitrary: c)
  case Nil
  then show ?case by simp
next
  case (Cons gvk gvks)
  show ?case
  proof (cases "isBuiltInType gvk")
    case True
    then show ?thesis
      by (auto simp: Cons.IH registerWatch_def)
  next
    case False
    have "is_pending (c\<lparr>pendingWatches := AList.update gvk True (pendingWatches c)\<rparr>) d
            = (d = gvk \<or> is_pending c d)"
      by (simp add: is_pending_def update_conv')
    with False show ?thesis
      by (auto simp: Cons.IH)
  qed
qed

lemma AddWatches_pending:
  "is_pending (snd (AddWatches c)) d
     = (is_pending c d \<or> (d \<in> set (Watches c) \<and> \<not> isBuiltInType d))"
  by (simp add: AddWatches_def addWatchesLoop_pending)

text \<open>
  Claim C8 at a failing input: the component of the repository's test of
  \<open>HasPendingWatchForCRD\<close>, which declares the descriptor and on which nothing has
  been promoted, and the definition of that test, which has the descriptor's group and
  kind and serves exactly the descriptor's version. The code returns false, because a
  declared descriptor is pending only once \<open>AddWatches\<close> has run; the same holds for
  the component that \<open>Register\<close> has just inserted.
\<close>

theorem HasPendingWatchForCRD_declared_never_promoted:
  "custom_gvk \<in> set (Watches watching_component)
   \<and> (Spec_Group custom_crd,
       map version_Name (filter version_Served (Spec_Versions custom_crd)),
       Spec_Names_Kind custom_crd)
      = (Group custom_gvk, [Version custom_gvk], Kind custom_gvk)
   \<and> HasPendingWatchForCRD watching_component custom_crd = False
   \<and> map_option Watches (GetComponent demo_registry ''demo'') = Some [custom_gvk]
   \<and> map_option (\<lambda>c. HasPendingWatchForCRD c custom_crd) (GetComponent demo_registry ''demo'')
       = Some False
   \<and> HasPendingWatchForCRD (snd (AddWatches watching_component)) custom_crd = True"
  by (simp add: watching_component_def custom_gvk_def custom_crd_def HasPendingWatchForCRD_def
                crdGVK_def getServedVersion_def demo_registry_eq GetComponent_def
                AddWatches_def isBuiltInType_def registerWatch_def)

text \<open>
  Only the first served version of a definition is compared: a definition that serves
  the descriptor's version second is not matched.
\<close>

lemma HasPendingWatchForCRD_second_served_version:
  "HasPendingWatchForCRD (snd (AddWatches watching_component))
     (custom_crd\<lparr>Spec_Versions :=
        [\<lparr>version_Name = ''v1'', version_Served = True\<rparr>,
         \<lparr>version_Name = ''v1alpha1'', version_Served = True\<rparr>]\<rparr>) = False"
  by (simp add: watching_component_def custom_gvk_def custom_crd_def HasPendingWatchForCRD_def
                crdGVK_def getServedVersion_def AddWatches_def isBuiltInType_def
                registerWatch_def)

text \<open>
  Claim C9, as stated, fails in its last part: \<open>AddWatches\<close> marks every declared
  descriptor outside the built-in groups pending, also one that was promoted before.
\<close>

theorem AddWatches_repends_counterexample:
  "HasPendingWatchForCRD (snd (AddWatches watching_component)) custom_crd
   \<and> \<not> HasPendingWatchForCRD
         (snd (RegisterPendingWatch (snd (AddWatches watching_component)) custom_crd)) custom_crd
   \<and> HasPendingWatchForCRD
         (snd (AddWatches
            (snd (RegisterPendingWatch (snd (AddWatches watching_component)) custom_crd))))
         custom_crd"
  by (simp add: AddWatches_def watching_component_def isBuiltInType_def registerWatch_def
                custom_gvk_def custom_crd_def RegisterPendingWatch_def HasPendingWatchForCRD_def
                MarkWatchRegistered_def crdGVK_def getServedVersion_def)

text \<open>
  Claim C9, amended. \<open>RegisterPendingWatch\<close> never returns an error; after it the
  descriptor of the definition is not pending; a second call with the same definition
  returns no error and leaves the component as it is; and no call of a method of the
  component other than \<open>AddWatches\<close> makes a descriptor pending that was not.
\<close>

theorem RegisterPendingWatch_idempotent:
  "fst (RegisterPendingWatch c crd) = None
   \<and> \<not> is_pending (snd (RegisterPendingWatch c crd)) (crdGVK crd)
   \<and> RegisterPendingWatch (snd (RegisterPendingWatch c crd)) crd
       = (None, snd (RegisterPendingWatch c crd))
   \<and> (\<forall>d calls. \<not> is_pending c d \<longrightarrow> \<not> is_pending (run_calls calls c) d)"
proof -
  have 1: "fst (RegisterPendingWatch c crd) = None"
    by (simp add: RegisterPendingWatch_def)
  have 2: "\<not> is_pending (snd (RegisterPendingWatch c crd)) (crdGVK crd)"
    by (simp add: RegisterPendingWatch_def is_pending_MarkWatchRegistered
                  HasPendingWatchForCRD_is_pending)
  have "\<not> HasPendingWatchForCRD (snd (RegisterPendingWatch c crd)) crd"
    using 2 by (simp add: HasPendingWatchForCRD_is_pending)
  then have 3: "RegisterPendingWatch (snd (RegisterPendingWatch c crd)) crd
                  = (None, snd (RegisterPendingWatch c crd))"
    by (simp add: RegisterPendingWatch_def)
  have 4: "\<forall>d calls. \<not> is_pending c d \<longrightarrow> \<not> is_pending (run_calls calls c) d"
    by (simp add: run_calls_not_pending)
  from 1 2 3 4 show ?thesis by blast
qed

theorem RegisterPendingWatch_idempotent_witness:
  "is_pending (snd (AddWatches watching_component)) custom_gvk
   \<and> \<not> is_pending (snd (RegisterPendingWatch (snd (AddWatches watching_component)) custom_crd))
         custom_gvk
   \<and> \<not> is_pending
         (run_calls [Call_RegisterPendingWatch custom_crd, Call_MergeValues None,
                     Call_MarkWatchRegistered custom_gvk, Call_RegisterPendingWatch other_crd]
            (snd (RegisterPendingWatch (snd (AddWatches watching_component)) custom_crd)))
         custom_gvk"
proof -
  let ?c = "snd (AddWatches watching_component)"
  have p: "is_pending ?c custom_gvk"
    by (simp add: AddWatches_def watching_component_def isBuiltInType_def registerWatch_def
                  custom_gvk_def is_pending_def)
  have g: "crdGVK custom_crd = custom_gvk"
    by (simp add: crdGVK_def custom_crd_def custom_gvk_def getServedVersion_def)
  note t1 = RegisterPendingWatch_idempotent [of ?c custom_crd]
  from t1 g have n: "\<not> is_pending (snd (RegisterPendingWatch ?c custom_crd)) custom_gvk"
    by simp
  note t2 = RegisterPendingWatch_idempotent [of "snd (RegisterPendingWatch ?c custom_crd)" custom_crd]
  from t2 n have "\<not> is_pending
         (run_calls [Call_RegisterPendingWatch custom_crd, Call_MergeValues None,
                     Call_MarkWatchRegistered custom_gvk, Call_RegisterPendingWatch other_crd]
            (snd (RegisterPendingWatch ?c custom_crd))) custom_gvk"
    by blast
  with p n show ?thesis by blast
qed

section \<open>Registration\<close>

lemma errors_Is_wrap_sentinel: "errors_Is (wrap_sentinel s detail) t = (s = t)"
  by (simp add: wrap_sentinel_def)

lemma Register_invalid:
  "validateComponentConfig config = Some err \<Longrightarrow>
   Register x r name config = (Some (wrap_sentinel ErrInvalidConfig (error_Error err)), r, [])"
  by (simp add: Register_def)

lemma Register_duplicate:
  "validateComponentConfig config = None \<Longrightarrow> map_of (components r) name \<noteq> None \<Longrightarrow>
   Register x r name config =
     (Some (wrap_sentinel ErrDuplicateComponent
              (''component '' @ [CHR 0x27] @ name @ [CHR 0x27] @ '' already registered'')), r, [])"
  by (simp add: Register_def)

text \<open>
  Claim C6, as stated, fails for a second call whose configuration is invalid: the
  configuration is validated before the name is looked up, so the call returns
  \<open>ErrInvalidConfig\<close>.
\<close>

theorem Register_duplicate_counterexample:
  "fst (Register demo_externals demo_registry ''demo'' (demo_config\<lparr>ChartName := ''''\<rparr>))
     = Some (wrap_sentinel ErrInvalidConfig ''ChartName cannot be empty'')
   \<and> \<not> errors_Is (wrap_sentinel ErrInvalidConfig ''ChartName cannot be empty'')
         ErrDuplicateComponent
   \<and> GetComponent demo_registry ''demo'' \<noteq> None"
  by (simp add: Register_def validateComponentConfig_def demo_config_def errors_Is_wrap_sentinel
                demo_registry_eq GetComponent_def)

text \<open>
  Claim C6, amended. For a name that the registry binds, a further \<open>Register\<close> with
  that name returns \<open>ErrDuplicateComponent\<close> when the configuration passes validation
  and \<open>ErrInvalidConfig\<close> when it does not; in both cases it leaves the registry as it
  is, so that the name still has the component of the first registration, and loads no
  bundle.
\<close>

theorem Register_duplicate_rejected:
  assumes "GetComponent r name = Some c"
  shows "(validateComponentConfig config = None \<longrightarrow>
            (\<exists>e. fst (Register x r name config) = Some e \<and> errors_Is e ErrDuplicateComponent))
       \<and> (validateComponentConfig config \<noteq> None \<longrightarrow>
            (\<exists>e. fst (Register x r name config) = Some e \<and> errors_Is e ErrInvalidConfig))
       \<and> fst (Register x r name config) \<noteq> None
       \<and> fst (snd (Register x r name config)) = r
       \<and> GetComponent (fst (snd (Register x r name config))) name = Some c
       \<and> snd (snd (Register x r name config)) = []"
proof (cases "validateComponentConfig config")
  case None
  from assms have "map_of (components r) name \<noteq> None"
    by (simp add: GetComponent_def)
  from Register_duplicate [OF None this] assms None show ?thesis
    by (simp add: errors_Is_wrap_sentinel)
next
  case (Some err)
  from Register_invalid [OF Some] assms Some show ?thesis
    by (simp add: errors_Is_wrap_sentinel)
qed

theorem Register_duplicate_rejected_witness:
  "GetComponent demo_registry ''demo'' \<noteq> None
   \<and> validateComponentConfig demo_config = None
   \<and> (\<exists>e. fst (Register demo_externals demo_registry ''demo'' demo_config) = Some e
           \<and> errors_Is e ErrDuplicateComponent)
   \<and> (\<exists>e. fst (Register demo_externals demo_registry ''demo''
                  (demo_config\<lparr>ValuesGenerator := None\<rparr>)) = Some e
           \<and> errors_Is e ErrInvalidConfig)
   \<and> fst (snd (Register demo_externals demo_registry ''demo'' demo_config)) = demo_registry
   \<and> snd (snd (Register demo_externals demo_registry ''demo'' demo_config)) = []"
proof -
  obtain c where c: "GetComponent demo_registry ''demo'' = Some c"
    by (simp add: demo_registry_eq GetComponent_def)
  have v: "validateComponentConfig demo_config = None"
    by (simp add: validateComponentConfig_def demo_config_def)
  have n: "validateComponentConfig (demo_config\<lparr>ValuesGenerator := None\<rparr>) \<noteq> None"
    by (simp add: validateComponentConfig_def demo_config_def)
  from Register_duplicate_rejected [OF c, of demo_config demo_externals]
       Register_duplicate_rejected [OF c, of "demo_config\<lparr>ValuesGenerator := None\<rparr>"
                                          demo_externals] v n c
  show ?thesis by simp
qed

text \<open>
  Claim C7, as stated, fails for the empty component name: only the configuration is
  validated, and a registration under the name \<open>''''\<close> with a valid configuration
  succeeds and inserts an entry.
\<close>

theorem Register_empty_name_counterexample:
  "fst (Register demo_externals NewHelmManagedComponentRegistry '''' demo_config) = None
   \<and> ListComponents
        (fst (snd (Register demo_externals NewHelmManagedComponentRegistry '''' demo_config)))
       = ['''']"
  by (simp add: Register_def validateComponentConfig_def demo_config_def
                NewHelmManagedComponentRegistry_def LoadChart_def demo_externals_def Let_def
                extractRHOAIValues_def demo_chart_def ListComponents_def)

text \<open>
  Claim C7, amended. \<open>Register\<close> fails with \<open>ErrInvalidConfig\<close> whenever the chart
  name of the configuration is empty or its values generator is nil; the registry is then
  unchanged and nothing is loaded.
\<close>

theorem Register_invalid_config:
  assumes "ChartName config = '''' \<or> ValuesGenerator config = None"
  shows "(\<exists>e. fst (Register x r name config) = Some e \<and> errors_Is e ErrInvalidConfig)
       \<and> fst (snd (Register x r name config)) = r
       \<and> snd (snd (Register x r name config)) = []"
proof -
  from assms have "validateComponentConfig config \<noteq> None"
    by (auto simp: validateComponentConfig_def)
  then obtain err where "validateComponentConfig config = Some err"
    by blast
  from Register_invalid [OF this] show ?thesis
    by (simp add: errors_Is_wrap_sentinel)
qed

theorem Register_invalid_config_witness:
  "(\<exists>e. fst (Register demo_externals demo_registry ''other''
              (demo_config\<lparr>ValuesGenerator := None\<rparr>)) = Some e
        \<and> errors_Is e ErrInvalidConfig)
   \<and> (\<exists>e. fst (Register demo_externals demo_registry ''other''
              (demo_config\<lparr>ChartName := ''''\<rparr>)) = Some e
        \<and> errors_Is e ErrInvalidConfig)
   \<and> ListComponents (fst (snd (Register demo_externals demo_registry ''other''
              (demo_config\<lparr>ValuesGenerator := None\<rparr>)))) = [''demo'']"
proof -
  have a: "ChartName (demo_config\<lparr>ValuesGenerator := None\<rparr>) = ''''
             \<or> ValuesGenerator (demo_config\<lparr>ValuesGenerator := None\<rparr>) = None"
    by simp
  have b: "ChartName (demo_config\<lparr>ChartName := ''''\<rparr>) = ''''
             \<or> ValuesGenerator (demo_config\<lparr>ChartName := ''''\<rparr>) = None"
    by simp
  have l: "ListComponents demo_registry = [''demo'']"
    by (simp add: demo_registry_eq ListComponents_def)
  from Register_invalid_config [OF a, of demo_externals demo_registry "''other''"]
       Register_invalid_config [OF b, of demo_externals demo_registry "''other''"] l
  show ?thesis by simp
qed

section \<open>Loading and the override file\<close>

lemma LoadChart_archive:
  "loader_Load x (filepath_Join x ''charts'' (chartPath @ ''.tgz'')) = Inr ch \<Longrightarrow>
   LoadChart x c chartPath =
     (None, snd (extractRHOAIValues x (c\<lparr>Chart := Some ch\<rparr>)),
      [filepath_Join x ''charts'' (chartPath @ ''.tgz'')])"
  by (simp add: LoadChart_def Let_def)

lemma LoadChart_directory:
  "loader_Load x (filepath_Join x ''charts'' (chartPath @ ''.tgz'')) = Inl e \<Longrightarrow>
   loader_Load x (filepath_Join x ''charts'' chartPath) = Inr ch \<Longrightarrow>
   LoadChart x c chartPath =
     (None, snd (extractRHOAIValues x (c\<lparr>Chart := Some ch\<rparr>)),
      [filepath_Join x ''charts'' (chartPath @ ''.tgz''), filepath_Join x ''charts'' chartPath])"
  by (simp add: LoadChart_def Let_def)

lemma LoadChart_fails_iff:
  "(fst (LoadChart x c chartPath) \<noteq> None) =
     ((\<exists>e. loader_Load x (filepath_Join x ''charts'' (chartPath @ ''.tgz'')) = Inl e)
      \<and> (\<exists>e. loader_Load x (filepath_Join x ''charts'' chartPath) = Inl e))"
  by (auto simp: LoadChart_def Let_def split: sum.splits)

lemma extractRHOAIValues_unparseable:
  "Chart c = Some ch \<Longrightarrow>
   find (\<lambda>f. file_Name f = ''values.rhoai.yaml'') (chart_Files ch) = Some f \<Longrightarrow>
   yaml_Unmarshal_Values x (file_Data f) = Inl e \<Longrightarrow>
   extractRHOAIValues x c =
     (Some (Errorf (''invalid values.rhoai.yaml: '' @ error_Error e) (Some e)), c)"
  by (simp add: extractRHOAIValues_def)

lemma extractRHOAIValues_absent:
  "Chart c = Some ch \<Longrightarrow>
   find (\<lambda>f. file_Name f = ''values.rhoai.yaml'') (chart_Files ch) = None \<Longrightarrow>
   extractRHOAIValues x c = (None, c\<lparr>RHOAIValues := Some []\<rparr>)"
  by (simp add: extractRHOAIValues_def)

lemma MergeValues_nil_overrides:
  "RHOAIValues c = None \<Longrightarrow>
   fst (MergeValues c componentValues)
     = fst (MergeValues (c\<lparr>RHOAIValues := Some []\<rparr>) componentValues)"
  by (simp add: MergeValues_def Let_def split: option.splits)

lemma Register_fresh:
  "validateComponentConfig config = None \<Longrightarrow> map_of (components r) name = None \<Longrightarrow>
   Register x r name config =
     (case LoadChart x
             \<lparr>ChartName = ChartName config, ValuesGenerator = ValuesGenerator config,
              Watches = Watches config, Chart = None, RHOAIValues = None,
              pendingWatches = []\<rparr>
             (ChartName config) of
        (Some err, c', loads) \<Rightarrow> (Some (wrap_sentinel ErrChartLoadFailed (error_Error err)), r, loads)
      | (None, c', loads) \<Rightarrow> (None, r\<lparr>components := AList.update name c' (components r)\<rparr>, loads))"
  by (simp add: Register_def Let_def)

lemma Register_load_failed_iff:
  "(\<exists>e. fst (Register x r name config) = Some e \<and> errors_Is e ErrChartLoadFailed) =
     (validateComponentConfig config = None \<and> map_of (components r) name = None
      \<and> (\<exists>e. loader_Load x (filepath_Join x ''charts'' (ChartName config @ ''.tgz'')) = Inl e)
      \<and> (\<exists>e. loader_Load x (filepath_Join x ''charts'' (ChartName config)) = Inl e))"
proof (cases "validateComponentConfig config")
  case (Some err)
  then show ?thesis
    by (simp add: Register_invalid errors_Is_wrap_sentinel)
next
  case None
  show ?thesis
  proof (cases "map_of (components r) name")
    case (Some c)
    with None show ?thesis
      by (simp add: Register_duplicate errors_Is_wrap_sentinel)
  next
    case fresh: None
    let ?c = "\<lparr>ChartName = ChartName config, ValuesGenerator = ValuesGenerator config,
              Watches = Watches config, Chart = None, RHOAIValues = None,
              pendingWatches = []\<rparr>"
    obtain err c' loads where l: "LoadChart x ?c (ChartName config) = (err, c', loads)"
      by (cases "LoadChart x ?c (ChartName config)")
    have "(\<exists>e. fst (Register x r name config) = Some e \<and> errors_Is e ErrChartLoadFailed)
            = (err \<noteq> None)"
      by (cases err) (simp_all add: Register_fresh [OF None fresh] l errors_Is_wrap_sentinel)
    also have "\<dots> = (fst (LoadChart x ?c (ChartName config)) \<noteq> None)"
      by (simp add: l)
    finally show ?thesis
      using None fresh LoadChart_fails_iff [of x ?c "ChartName config"] by simp
  qed
qed

text \<open>
  Claim C10. When the bundle loads, from the archive or from the unpacked directory, and
  its file \<^verbatim>\<open>values.rhoai.yaml\<close> does not parse, a registration with a valid
  configuration under a fresh name succeeds: the entry has the chart, its overrides are
  nil, and \<open>MergeValues\<close> gives for it what it gives with the empty overrides of a
  bundle without that file. \<open>Register\<close> returns \<open>ErrChartLoadFailed\<close> exactly when
  the configuration is valid, the name is fresh and the loader fails on both paths.
\<close>

theorem Register_unparseable_overrides:
  "(\<forall>ch f e.
       validateComponentConfig config = None \<and> map_of (components r) name = None \<and>
       (loader_Load x (filepath_Join x ''charts'' (ChartName config @ ''.tgz'')) = Inr ch
        \<or> (\<exists>e'. loader_Load x (filepath_Join x ''charts'' (ChartName config @ ''.tgz'')) = Inl e')
           \<and> loader_Load x (filepath_Join x ''charts'' (ChartName config)) = Inr ch) \<and>
       find (\<lambda>f. file_Name f = ''values.rhoai.yaml'') (chart_Files ch) = Some f \<and>
       yaml_Unmarshal_Values x (file_Data f) = Inl e \<longrightarrow>
       fst (Register x r name config) = None \<and>
       (\<exists>c. GetComponent (fst (snd (Register x r name config))) name = Some c \<and>
            Chart c = Some ch \<and> RHOAIValues c = None \<and>
            (\<forall>componentValues.
                fst (MergeValues c componentValues)
                  = fst (MergeValues (c\<lparr>RHOAIValues := Some []\<rparr>) componentValues))))
   \<and> ((\<exists>e. fst (Register x r name config) = Some e \<and> errors_Is e ErrChartLoadFailed) \<longleftrightarrow>
        (validateComponentConfig config = None \<and> map_of (components r) name = None
         \<and> (\<exists>e. loader_Load x (filepath_Join x ''charts'' (ChartName config @ ''.tgz'')) = Inl e)
         \<and> (\<exists>e. loader_Load x (filepath_Join x ''charts'' (ChartName config)) = Inl e)))"
proof (intro conjI allI impI)
  fix ch f e
  let ?c = "\<lparr>ChartName = ChartName config, ValuesGenerator = ValuesGenerator config,
            Watches = Watches config, Chart = None, RHOAIValues = None,
            pendingWatches = []\<rparr>"
  let ?c' = "?c\<lparr>Chart := Some ch\<rparr>"
  assume h: "validateComponentConfig config = None \<and> map_of (components r) name = None \<and>
       (loader_Load x (filepath_Join x ''charts'' (ChartName config @ ''.tgz'')) = Inr ch
        \<or> (\<exists>e'. loader_Load x (filepath_Join x ''charts'' (ChartName config @ ''.tgz'')) = Inl e')
           \<and> loader_Load x (filepath_Join x ''charts'' (ChartName config)) = Inr ch) \<and>
       find (\<lambda>f. file_Name f = ''values.rhoai.yaml'') (chart_Files ch) = Some f \<and>
       yaml_Unmarshal_Values x (file_Data f) = Inl e"
  then have valid: "validateComponentConfig config = None"
    and fresh: "map_of (components r) name = None"
    and found: "find (\<lambda>f. file_Name f = ''values.rhoai.yaml'') (chart_Files ch) = Some f"
    and bad: "yaml_Unmarshal_Values x (file_Data f) = Inl e"
    by simp_all
  have "Chart ?c' = Some ch"
    by simp
  from extractRHOAIValues_unparseable [OF this found bad]
  have ex: "snd (extractRHOAIValues x ?c') = ?c'"
    by simp
  from h have "\<exists>loads. LoadChart x ?c (ChartName config) = (None, ?c', loads)"
  proof (elim conjE disjE exE)
    assume "loader_Load x (filepath_Join x ''charts'' (ChartName config @ ''.tgz'')) = Inr ch"
    from LoadChart_archive [OF this, of ?c] ex show ?thesis by simp
  next
    fix e'
    assume "loader_Load x (filepath_Join x ''charts'' (ChartName config @ ''.tgz'')) = Inl e'"
      and "loader_Load x (filepath_Join x ''charts'' (ChartName config)) = Inr ch"
    from LoadChart_directory [OF this, of ?c] ex show ?thesis by simp
  qed
  then obtain loads where l: "LoadChart x ?c (ChartName config) = (None, ?c', loads)" ..
  have reg: "Register x r name config
               = (None, r\<lparr>components := AList.update name ?c' (components r)\<rparr>, loads)"
    by (simp add: Register_fresh [OF valid fresh] l)
  show "fst (Register x r name config) = None"
    by (simp add: reg)
  have get: "GetComponent (fst (snd (Register x r name config))) name = Some ?c'"
    by (simp add: reg GetComponent_def update_conv')
  have mv: "\<forall>componentValues.
              fst (MergeValues ?c' componentValues)
                = fst (MergeValues (?c'\<lparr>RHOAIValues := Some []\<rparr>) componentValues)"
    by (intro allI MergeValues_nil_overrides) simp
  show "\<exists>c. GetComponent (fst (snd (Register x r name config))) name = Some c \<and>
            Chart c = Some ch \<and> RHOAIValues c = None \<and>
            (\<forall>componentValues.
                fst (MergeValues c componentValues)
                  = fst (MergeValues (c\<lparr>RHOAIValues := Some []\<rparr>) componentValues))"
    using get mv by (intro exI [of _ ?c']) simp
next
  show "(\<exists>e. fst (Register x r name config) = Some e \<and> errors_Is e ErrChartLoadFailed) \<longleftrightarrow>
        (validateComponentConfig config = None \<and> map_of (components r) name = None
         \<and> (\<exists>e. loader_Load x (filepath_Join x ''charts'' (ChartName config @ ''.tgz'')) = Inl e)
         \<and> (\<exists>e. loader_Load x (filepath_Join x ''charts'' (ChartName config)) = Inl e))"
    by (rule Register_load_failed_iff)
qed

theorem Register_unparseable_overrides_witness:
  "fst (Register demo_externals demo_registry ''broken'' (demo_config\<lparr>ChartName := ''broken''\<rparr>))
     = None
   \<and> (\<exists>c. GetComponent
             (fst (snd (Register demo_externals demo_registry ''broken''
                          (demo_config\<lparr>ChartName := ''broken''\<rparr>)))) ''broken'' = Some c
          \<and> Chart c = Some broken_chart \<and> RHOAIValues c = None
          \<and> fst (MergeValues c (Some [(''b'', VInt 2)]))
              = fst (MergeValues (c\<lparr>RHOAIValues := Some []\<rparr>) (Some [(''b'', VInt 2)])))
   \<and> (\<exists>e. fst (Register demo_externals demo_registry ''missing''
                  (demo_config\<lparr>ChartName := ''missing''\<rparr>)) = Some e
          \<and> errors_Is e ErrChartLoadFailed)"
proof -
  let ?cfg = "demo_config\<lparr>ChartName := ''broken''\<rparr>"
  let ?mis = "demo_config\<lparr>ChartName := ''missing''\<rparr>"
  let ?f = "\<lparr>file_Name = ''values.rhoai.yaml'', file_Data = ''a: [1''\<rparr>"
  have h: "validateComponentConfig ?cfg = None \<and> map_of (components demo_registry) ''broken'' = None \<and>
       (loader_Load demo_externals (filepath_Join demo_externals ''charts'' (ChartName ?cfg @ ''.tgz''))
          = Inr broken_chart
        \<or> (\<exists>e'. loader_Load demo_externals
                  (filepath_Join demo_externals ''charts'' (ChartName ?cfg @ ''.tgz'')) = Inl e')
           \<and> loader_Load demo_externals (filepath_Join demo_externals ''charts'' (ChartName ?cfg))
               = Inr broken_chart) \<and>
       find (\<lambda>f. file_Name f = ''values.rhoai.yaml'') (chart_Files broken_chart) = Some ?f \<and>
       yaml_Unmarshal_Values demo_externals (file_Data ?f)
         = Inl (LibraryError ''yaml: did not find expected node content'')"
    by (simp add: validateComponentConfig_def demo_config_def demo_registry_eq demo_externals_def
                  broken_chart_def demo_chart_def)
  have m: "validateComponentConfig ?mis = None \<and> map_of (components demo_registry) ''missing'' = None
         \<and> (\<exists>e. loader_Load demo_externals
                  (filepath_Join demo_externals ''charts'' (ChartName ?mis @ ''.tgz'')) = Inl e)
         \<and> (\<exists>e. loader_Load demo_externals
                  (filepath_Join demo_externals ''charts'' (ChartName ?mis)) = Inl e)"
    by (simp add: validateComponentConfig_def demo_config_def demo_registry_eq demo_externals_def)
  note t1 = Register_unparseable_overrides [of ?cfg demo_registry "''broken''" demo_externals,
      THEN conjunct1, rule_format, OF h]
  note t2 = Register_unparseable_overrides [of ?mis demo_registry "''missing''" demo_externals,
      THEN conjunct2]
  from t2 m have g2: "\<exists>e. fst (Register demo_externals demo_registry ''missing'' ?mis) = Some e
          \<and> errors_Is e ErrChartLoadFailed"
    by blast
  from t1 g2 show ?thesis by blast
qed

section \<open>Rendering\<close>

text \<open>
  Every error that \<open>Render\<close> returns names one of three sentinels (or is the panic of a
  nil generator); \<open>ErrInvalidManifest\<close> is declared and never returned.
\<close>

lemma Render_error_sentinels:
  assumes "fst (Render x r name spec) = Inl e"
  shows "errors_Is e ErrComponentNotFound \<or> errors_Is e ErrValuesGeneration
         \<or> errors_Is e ErrTemplateRendering \<or> e = LibraryError ''panic: nil function call''"
  using assms
  by (auto simp: Render_def Let_def errors_Is_wrap_sentinel
           split: option.splits sum.splits prod.splits)

lemma Render_never_ErrInvalidManifest:
  assumes "fst (Render x r name spec) = Inl e"
  shows "\<not> errors_Is e ErrInvalidManifest"
  using assms
  by (auto simp: Render_def Let_def errors_Is_wrap_sentinel
           split: option.splits sum.splits prod.splits)

lemma RenderTemplates_invalid_yaml:
  assumes "Chart c = Some ch"
    and "engine_Render x ch vals = Inr [(filename, content)]"
    and "\<not> shouldExcludeFile filename"
    and "yaml_Unmarshal x content = Some err"
  shows "RenderTemplates x c vals
           = Inl (Errorf (''invalid YAML in '' @ filename @ '': '' @ error_Error err) (Some err))"
  using assms by (simp add: RenderTemplates_def validateYAML_def)

text \<open>
  Claim C2 at a failing input: the template engine succeeds, the one rendered file is
  not YAML, and \<open>Render\<close> returns an error that wraps \<open>ErrTemplateRendering\<close> and
  not \<open>ErrInvalidManifest\<close>.
\<close>

theorem Render_invalid_yaml_is_ErrTemplateRendering:
  "engine_Render demo_externals demo_chart (Some [(''Values'', VTable [(''a'', VStr ''[1'')])])
     = Inr [(''demo/templates/cm.yaml'', ''a: [1'')]
   \<and> fst (Render demo_externals demo_registry ''demo'' ''[1'')
     = Inl (wrap_sentinel ErrTemplateRendering
         ''invalid YAML in demo/templates/cm.yaml: yaml: did not find expected node content'')
   \<and> errors_Is (wrap_sentinel ErrTemplateRendering
         ''invalid YAML in demo/templates/cm.yaml: yaml: did not find expected node content'')
        ErrTemplateRendering
   \<and> \<not> errors_Is (wrap_sentinel ErrTemplateRendering
         ''invalid YAML in demo/templates/cm.yaml: yaml: did not find expected node content'')
        ErrInvalidManifest"
proof -
  let ?vals = "Some [(''Values'', VTable [(''a'', VStr ''[1'')])]"
  let ?c = "\<lparr>ChartName = ''demo'', ValuesGenerator = Some demo_generator, Watches = [custom_gvk],
             Chart = Some demo_chart, RHOAIValues = Some [(''Values'', VNull)],
             pendingWatches = []\<rparr>"
  let ?c' = "\<lparr>ChartName = ''demo'', ValuesGenerator = Some demo_generator, Watches = [custom_gvk],
              Chart = Some demo_chart, RHOAIValues = Some [], pendingWatches = []\<rparr>"
  have 1: "engine_Render demo_externals demo_chart ?vals
             = Inr [(''demo/templates/cm.yaml'', ''a: [1'')]"
    by (simp add: demo_externals_def demo_template_def)
  have m: "MergeValues ?c ?vals = (?vals, ?c')"
    by (simp add: MergeValues_def Let_def CoalesceTables_def demo_chart_def)
  have e: "\<not> shouldExcludeFile ''demo/templates/cm.yaml''"
    by (simp add: shouldExcludeFile_def)
  have y: "yaml_Unmarshal demo_externals ''a: [1''
             = Some (LibraryError ''yaml: did not find expected node content'')"
    by (simp add: demo_externals_def)
  have t: "RenderTemplates demo_externals ?c' ?vals
           = Inl (Errorf (''invalid YAML in '' @ ''demo/templates/cm.yaml'' @ '': ''
                    @ error_Error (LibraryError ''yaml: did not find expected node content''))
                    (Some (LibraryError ''yaml: did not find expected node content'')))"
    by (rule RenderTemplates_invalid_yaml [OF _ 1 e y]) simp
  have 2: "fst (Render demo_externals demo_registry ''demo'' ''[1'')
     = Inl (wrap_sentinel ErrTemplateRendering
         ''invalid YAML in demo/templates/cm.yaml: yaml: did not find expected node content'')"
    by (simp add: Render_def GetComponent_def demo_registry_eq demo_generator_def m t)
  from 1 2 show ?thesis
    by (simp add: errors_Is_wrap_sentinel)
qed

text \<open>Without platform overrides \<open>MergeValues\<close> leaves the component as it is.\<close>

lemma MergeValues_keeps_component:
  "len (RHOAIValues c) = 0 \<Longrightarrow> snd (MergeValues c componentValues) = c"
  by (simp add: MergeValues_def Let_def split: option.splits)



end
